theory Spec2Isabelle
  imports Main "HOL-Library.Multiset"
begin

section \<open>Data model\<close>

text \<open>
  The Prisma enums. The source names only \<^verbatim>\<open>ConversationType.CUSTOMER\<close> and
  \<^verbatim>\<open>AuthorType.STAFF\<close>; every other member of either enum is kept by its name.
\<close>

datatype ConversationType = CUSTOMER | OtherType string

datatype AuthorType = STAFF | OtherAuthor string

text \<open>JSON payloads (message content, metadata) as objects with string values.\<close>

type_synonym Json = "(string \<times> string) list"

type_synonym MessageContent = "(string \<times> string) list"

text \<open>A staff principal; the facade itself reads only its identifier.\<close>

record Staff =
  staff_id :: int

record Conversation =
  conv_id :: int
  sunshineConversationId :: "string option"
  conv_type :: ConversationType
  customerId :: "int option"
  source :: "string option"
  metadata :: Json
  createdAt :: int
  updatedAt :: int

text \<open>\<^verbatim>\<open>Unsaved<T> = Omit<T, "id" | "createdAt" | "updatedAt">\<close>\<close>

record UnsavedConversation =
  u_sunshineConversationId :: "string option"
  u_type :: ConversationType
  u_customerId :: "int option"
  u_source :: "string option"
  u_metadata :: Json

record Message =
  msg_id :: int
  conversationId :: int
  content :: MessageContent
  sunshineMessageId :: "string option"
  authorType :: AuthorType
  authorId :: int
  msg_metadata :: Json
  msg_createdAt :: int

record UnsavedMessage =
  um_conversationId :: int
  um_content :: MessageContent
  um_sunshineMessageId :: "string option"
  um_authorType :: AuthorType
  um_authorId :: int
  um_metadata :: Json

text \<open>The join row, keyed by the compound \<^verbatim>\<open>staffId_conversationId\<close>.\<close>

record StaffConversation =
  staffId :: int
  sc_conversationId :: int

record GoodChatConfig =
  appName :: string
  smoochAppId :: string

text \<open>The body handed to the provider's \<^verbatim>\<open>postMessage\<close>.\<close>

record MessagePost =
  author_type :: string
  author_displayName :: string
  post_content :: MessageContent

text \<open>
  Every throw of the source is a value: \<^verbatim>\<open>throwForbidden()\<close>, an error thrown by the
  provider's client (carried unchanged), the TypeError of \<^verbatim>\<open>messages[0].id\<close> on an
  empty answer, and the two ways the store refuses a write.
\<close>

datatype error =
  Forbidden | ProviderError string | TypeError | UniqueConstraint | InvalidWhere

text \<open>
  The world the facade acts on: the three tables, the store's clock (it stamps
  \<^verbatim>\<open>createdAt\<close> and \<^verbatim>\<open>updatedAt\<close>, which no caller supplies), and the requests
  sent to the provider so far.
\<close>

record state =
  conversations :: "Conversation list"
  messages :: "Message list"
  staffConversations :: "StaffConversation list"
  now :: int
  posted :: "(string \<times> string \<times> MessagePost) list"

section \<open>Where clauses as JavaScript objects\<close>

text \<open>
  \<^verbatim>\<open>WhereClause = Record<string, any>\<close>: an object is a list of key/value pairs in
  insertion order, with no key twice. A value is undefined, null, a number, an enum
  member, a filter expression of the store (an object or array such as
  \<^verbatim>\<open>{ in: [...] }\<close>, kept abstract as \<open>'f\<close>), or a nested where object.
\<close>

datatype 'f wval =
  WUndefined | WNull | WNum int | WType ConversationType | WFilter 'f
  | WObj "(string \<times> 'f wval) list"

type_synonym 'f WhereClause = "(string \<times> 'f wval) list"

text \<open>
  What \<^verbatim>\<open>_.identity\<close> decides as the predicate of \<^verbatim>\<open>_.pickBy\<close>: undefined, null and
  the number 0 are falsy; enum members are non-empty strings, objects are always truthy.
\<close>

fun truthy :: "'f wval \<Rightarrow> bool" where
  "truthy WUndefined = False"
| "truthy WNull = False"
| "truthy (WNum n) = (n \<noteq> 0)"
| "truthy (WType t) = True"
| "truthy (WFilter f) = True"
| "truthy (WObj obj) = True"

text \<open>\<^verbatim>\<open>const clean = (obj) => _.pickBy(obj, _.identity)\<close>\<close>

definition clean :: "(string \<times> 'f wval) list \<Rightarrow> (string \<times> 'f wval) list" where
  "clean obj = filter (\<lambda>(k, v). truthy v) obj"

text \<open>Assignment \<^verbatim>\<open>obj[k] = v\<close>: an existing key keeps its place, a new one goes last.\<close>

fun obj_put :: "string \<Rightarrow> 'v \<Rightarrow> (string \<times> 'v) list \<Rightarrow> (string \<times> 'v) list" where
  "obj_put k v [] = [(k, v)]"
| "obj_put k v ((k', v') # rest) =
     (if k' = k then (k, v) # rest else (k', v') # obj_put k v rest)"

text \<open>The object literal \<^verbatim>\<open>{ ...a, ...b }\<close>: the keys of \<open>b\<close> win.\<close>

definition spread :: "(string \<times> 'v) list \<Rightarrow> (string \<times> 'v) list \<Rightarrow> (string \<times> 'v) list" where
  "spread a b = foldl (\<lambda>obj (k, v). obj_put k v obj) a b"

text \<open>
  An optional property \<^verbatim>\<open>k?: T\<close> of an argument object, where \<^verbatim>\<open>_.pick\<close> tells an
  absent key from a key whose value is undefined: it copies every key that is in the
  object, whatever its value.
\<close>

datatype 'a optional = Absent | Undefined | Defined 'a

definition entry :: "string \<Rightarrow> ('a \<Rightarrow> 'f wval) \<Rightarrow> 'a optional \<Rightarrow> (string \<times> 'f wval) list" where
  "entry k f x =
     (case x of Absent \<Rightarrow> [] | Undefined \<Rightarrow> [(k, WUndefined)] | Defined a \<Rightarrow> [(k, f a)])"

text \<open>A property read \<^verbatim>\<open>args.k\<close> that is written under a key whether defined or not.\<close>

definition num_or_undefined :: "int option \<Rightarrow> 'f wval" where
  "num_or_undefined x = (case x of None \<Rightarrow> WUndefined | Some n \<Rightarrow> WNum n)"

section \<open>The collaborators outside the facade\<close>

text \<open>
  The rule engine (\<^verbatim>\<open>./rules\<close>), the configuration and the provider's client are not
  part of the facade; they are parameters. \<open>constraint_holds\<close> is the store's reading of
  a constraint the facade does not build itself (the entries of the rule engine's
  object). \<open>config\<close> is \<open>None\<close> when the configuration value is falsy.
  \<open>postMessage\<close> answers with the identifiers of the created messages, or throws.
\<close>

record 'f env =
  getConversationRules :: "Staff \<Rightarrow> 'f WhereClause"
  allowedConversationTypes :: "Staff \<Rightarrow> ConversationType list"
  constraint_holds :: "string \<Rightarrow> 'f wval \<Rightarrow> state \<Rightarrow> Conversation \<Rightarrow> bool"
  config :: "GoodChatConfig option"
  postMessage :: "string \<Rightarrow> string \<Rightarrow> MessagePost \<Rightarrow> string + string list"

section \<open>The store's primitives\<close>

text \<open>
  One constraint of a conversation where object. An undefined value constrains nothing;
  \<^verbatim>\<open>id\<close>, \<^verbatim>\<open>customerId\<close> and \<^verbatim>\<open>type\<close> with a scalar are equalities; anything else is
  read by the store (\<open>constraint_holds\<close>).
\<close>

fun field_holds :: "'f env \<Rightarrow> state \<Rightarrow> Conversation \<Rightarrow> string \<Rightarrow> 'f wval \<Rightarrow> bool" where
  "field_holds E s c k WUndefined = True"
| "field_holds E s c k (WNum n) =
     (if k = ''id'' then conv_id c = n
      else if k = ''customerId'' then customerId c = Some n
      else constraint_holds E k (WNum n) s c)"
| "field_holds E s c k (WType t) =
     (if k = ''type'' then conv_type c = t else constraint_holds E k (WType t) s c)"
| "field_holds E s c k WNull =
     (if k = ''customerId'' then customerId c = None else constraint_holds E k WNull s c)"
| "field_holds E s c k (WFilter f) = constraint_holds E k (WFilter f) s c"
| "field_holds E s c k (WObj obj) = constraint_holds E k (WObj obj) s c"

text \<open>The entries of a where object are ANDed.\<close>

definition conversation_matches :: "'f env \<Rightarrow> state \<Rightarrow> 'f WhereClause \<Rightarrow> Conversation \<Rightarrow> bool" where
  "conversation_matches E s w c = list_all (\<lambda>(k, v). field_holds E s c k v) w"

text \<open>
  One constraint of a message where object: \<^verbatim>\<open>id\<close> and \<^verbatim>\<open>conversationId\<close> are
  equalities, \<^verbatim>\<open>conversation\<close> constrains the owning conversation. The facade builds
  no other constraint; the store matches nothing on one.
\<close>

fun message_field_holds :: "'f env \<Rightarrow> state \<Rightarrow> Message \<Rightarrow> string \<Rightarrow> 'f wval \<Rightarrow> bool" where
  "message_field_holds E s m k WUndefined = True"
| "message_field_holds E s m k (WNum n) =
     (if k = ''id'' then msg_id m = n
      else if k = ''conversationId'' then conversationId m = n
      else False)"
| "message_field_holds E s m k (WObj obj) =
     (if k = ''conversation''
      then list_ex (\<lambda>c. conv_id c = conversationId m \<and> conversation_matches E s obj c)
             (conversations s)
      else False)"
| "message_field_holds E s m k v = False"

definition message_matches :: "'f env \<Rightarrow> state \<Rightarrow> 'f WhereClause \<Rightarrow> Message \<Rightarrow> bool" where
  "message_matches E s w m = list_all (\<lambda>(k, v). message_field_holds E s m k v) w"

text \<open>
  \<^verbatim>\<open>orderBy\<close>: a stable insertion sort by the given "comes first" relation (rows that
  the relation does not separate keep the order of the table).
\<close>

fun insert_by :: "('a \<Rightarrow> 'a \<Rightarrow> bool) \<Rightarrow> 'a \<Rightarrow> 'a list \<Rightarrow> 'a list" where
  "insert_by le x [] = [x]"
| "insert_by le x (y # ys) = (if le x y then x # y # ys else y # insert_by le x ys)"

definition sort_by :: "('a \<Rightarrow> 'a \<Rightarrow> bool) \<Rightarrow> 'a list \<Rightarrow> 'a list" where
  "sort_by le xs = foldr (insert_by le) xs []"

text \<open>
  \<^verbatim>\<open>findMany({ skip, take, where, orderBy })\<close> over a table: filter, order, skip, take.
  The facade only passes \<open>skip\<close> and \<open>take\<close> from \<open>normalizePages\<close>, never negative.
\<close>

definition findMany :: "'r list \<Rightarrow> int \<Rightarrow> int \<Rightarrow> ('r \<Rightarrow> bool) \<Rightarrow> ('r \<Rightarrow> 'r \<Rightarrow> bool) \<Rightarrow> 'r list" where
  "findMany rows skip tk matches orderBy =
     take (nat tk) (drop (nat skip) (sort_by orderBy (filter matches rows)))"

text \<open>\<^verbatim>\<open>orderBy: [{ updatedAt: 'desc' }, { id: 'desc' }]\<close>\<close>

definition updatedAt_desc_id_desc :: "Conversation \<Rightarrow> Conversation \<Rightarrow> bool" where
  "updatedAt_desc_id_desc a b =
     (updatedAt a > updatedAt b \<or> (updatedAt a = updatedAt b \<and> conv_id a \<ge> conv_id b))"

datatype order = asc | desc

text \<open>\<^verbatim>\<open>orderBy: [{ createdAt: order }]\<close>\<close>

fun createdAt_order :: "order \<Rightarrow> Message \<Rightarrow> Message \<Rightarrow> bool" where
  "createdAt_order asc a b = (msg_createdAt a \<le> msg_createdAt b)"
| "createdAt_order desc a b = (msg_createdAt a \<ge> msg_createdAt b)"

text \<open>The identifier the store assigns to a new row: above every identifier in use.\<close>

definition next_id :: "int list \<Rightarrow> int" where
  "next_id ids = foldr max ids 0 + 1"

text \<open>\<^verbatim>\<open>db.staffConversations.upsert({ where, update: {}, create })\<close>\<close>

definition staffConversations_upsert ::
  "StaffConversation \<Rightarrow> state \<Rightarrow> (error + StaffConversation) \<times> state" where
  "staffConversations_upsert compoundId s =
     (case find (\<lambda>r. staffId r = staffId compoundId
                     \<and> sc_conversationId r = sc_conversationId compoundId)
             (staffConversations s) of
        Some r \<Rightarrow> (Inr r, s)
      | None \<Rightarrow> (Inr compoundId,
                  s\<lparr>staffConversations := staffConversations s @ [compoundId]\<rparr>))"

text \<open>\<^verbatim>\<open>db.message.create({ data })\<close>\<close>

definition saved_message :: "UnsavedMessage \<Rightarrow> state \<Rightarrow> Message" where
  "saved_message d s =
     \<lparr> msg_id = next_id (map msg_id (messages s)),
       conversationId = um_conversationId d,
       content = um_content d,
       sunshineMessageId = um_sunshineMessageId d,
       authorType = um_authorType d,
       authorId = um_authorId d,
       msg_metadata = um_metadata d,
       msg_createdAt = now s \<rparr>"

definition message_create :: "UnsavedMessage \<Rightarrow> state \<Rightarrow> (error + Message) \<times> state" where
  "message_create d s =
     (case um_sunshineMessageId d of
        None \<Rightarrow> (Inr (saved_message d s), s\<lparr>messages := messages s @ [saved_message d s]\<rparr>)
      | Some k \<Rightarrow>
          if list_ex (\<lambda>m. sunshineMessageId m = Some k) (messages s)
          then (Inl UniqueConstraint, s)
          else (Inr (saved_message d s), s\<lparr>messages := messages s @ [saved_message d s]\<rparr>))"

text \<open>
  \<^verbatim>\<open>db.message.upsert({ where: { sunshineMessageId }, update: {}, create })\<close>. The
  unique where input of the store takes a string: a null key is refused.
\<close>

definition message_upsert ::
  "string option \<Rightarrow> UnsavedMessage \<Rightarrow> state \<Rightarrow> (error + Message) \<times> state" where
  "message_upsert key d s =
     (case key of
        None \<Rightarrow> (Inl InvalidWhere, s)
      | Some k \<Rightarrow>
          (case find (\<lambda>m. sunshineMessageId m = Some k) (messages s) of
             Some m \<Rightarrow> (Inr m, s)
           | None \<Rightarrow> message_create d s))"

text \<open>
  Writing one conversation row back by its identifier; the store stamps
  \<^verbatim>\<open>updatedAt\<close> and refuses an external identity that another row holds.
\<close>

definition replace_conversation :: "Conversation \<Rightarrow> Conversation list \<Rightarrow> Conversation list" where
  "replace_conversation c rows = map (\<lambda>r. if conv_id r = conv_id c then c else r) rows"

definition identity_conflict :: "Conversation \<Rightarrow> state \<Rightarrow> bool" where
  "identity_conflict c s =
     (sunshineConversationId c \<noteq> None
      \<and> list_ex (\<lambda>r. conv_id r \<noteq> conv_id c
                     \<and> sunshineConversationId r = sunshineConversationId c)
           (conversations s))"

definition conversation_write :: "Conversation \<Rightarrow> state \<Rightarrow> (error + Conversation) \<times> state" where
  "conversation_write c s =
     (let c' = c\<lparr>updatedAt := now s\<rparr> in
      if identity_conflict c' s
      then (Inl UniqueConstraint, s)
      else (Inr c', s\<lparr>conversations := replace_conversation c' (conversations s)\<rparr>))"

text \<open>
  \<^verbatim>\<open>db.conversation.upsert({ where: { sunshineConversationId }, create, update })\<close>,
  with \<open>update\<close> as the function that applies the update data to the row found.
\<close>

definition conversation_upsert ::
  "string \<Rightarrow> UnsavedConversation \<Rightarrow> (Conversation \<Rightarrow> Conversation) \<Rightarrow> state
     \<Rightarrow> (error + Conversation) \<times> state" where
  "conversation_upsert key create update s =
     (case find (\<lambda>r. sunshineConversationId r = Some key) (conversations s) of
        Some r \<Rightarrow> conversation_write (update r) s
      | None \<Rightarrow>
          (let c = \<lparr> conv_id = next_id (map conv_id (conversations s)),
                     sunshineConversationId = u_sunshineConversationId create,
                     conv_type = u_type create,
                     customerId = u_customerId create,
                     source = u_source create,
                     metadata = u_metadata create,
                     createdAt = now s,
                     updatedAt = now s \<rparr>
           in (Inr c, s\<lparr>conversations := conversations s @ [c]\<rparr>)))"

text \<open>\<^verbatim>\<open>db.conversation.update({ where: { id }, data })\<close> on a row known to exist.\<close>

definition conversation_update ::
  "int \<Rightarrow> (Conversation \<Rightarrow> Conversation) \<Rightarrow> state \<Rightarrow> (error + Conversation) \<times> state" where
  "conversation_update i update s =
     (case find (\<lambda>r. conv_id r = i) (conversations s) of
        Some r \<Rightarrow> conversation_write (update r) s
      | None \<Rightarrow> (Inl InvalidWhere, s))"

section \<open>Pagination (normalizePages)\<close>

text \<open>
  \<^verbatim>\<open>CollectionArgs = Partial<Pagination>\<close>: a property that is only ever read
  (\<^verbatim>\<open>args.limit\<close>) is \<open>None\<close> when the key is absent or its value undefined. The
  numbers are the integers of the GraphQL layer.
\<close>

record CollectionArgs =
  arg_limit :: "int option"
  arg_offset :: "int option"

record ConversationsArgs = CollectionArgs +
  arg_type :: "ConversationType optional"
  arg_customerId :: "int optional"
  arg_id :: "int optional"

record MessageArgs = CollectionArgs +
  arg_conversationId :: "int option"
  arg_message_id :: "int option"
  arg_order :: "order option"

record Pagination =
  limit :: int
  offset :: int

text \<open>
  JavaScript's \<^verbatim>\<open>x || d\<close> on an optional number: the default is taken when \<open>x\<close>
  is undefined and also when it is the falsy number 0.
\<close>

definition or_default :: "int option \<Rightarrow> int \<Rightarrow> int" where
  "or_default x d = (case x of None \<Rightarrow> d | Some n \<Rightarrow> if n = 0 then d else n)"

text \<open>lodash \<^verbatim>\<open>_.clamp(number, lower, upper)\<close>: first cut at upper, then at lower.\<close>

definition clamp :: "int \<Rightarrow> int \<Rightarrow> int \<Rightarrow> int" where
  "clamp number lower upper =
     (let n1 = (if number \<le> upper then number else upper)
      in if n1 \<ge> lower then n1 else lower)"

definition normalizePages :: "'a CollectionArgs_scheme \<Rightarrow> Pagination" where
  "normalizePages args =
     \<lparr> limit = clamp (or_default (arg_limit args) 25) 0 100,
       offset = clamp (or_default (arg_offset args) 0) 0 100 \<rparr>"

section \<open>The ability facade (abilities.ts)\<close>

text \<open>
  The where object of \<open>getConversations\<close>:
  \<^verbatim>\<open>clean({ ...getConversationRules(staff), ..._.pick(args, ['type', 'id', 'customerId']) })\<close>
\<close>

definition pick_conversation_args :: "ConversationsArgs \<Rightarrow> 'f WhereClause" where
  "pick_conversation_args args =
     entry ''type'' WType (arg_type args)
     @ entry ''id'' WNum (arg_id args)
     @ entry ''customerId'' WNum (arg_customerId args)"

definition conversations_where :: "'f env \<Rightarrow> Staff \<Rightarrow> ConversationsArgs \<Rightarrow> 'f WhereClause" where
  "conversations_where E staff args =
     clean (spread (getConversationRules E staff) (pick_conversation_args args))"

definition getConversations :: "'f env \<Rightarrow> Staff \<Rightarrow> ConversationsArgs \<Rightarrow> state \<Rightarrow> Conversation list" where
  "getConversations E staff args s =
     (let p = normalizePages args
      in findMany (conversations s) (offset p) (limit p)
           (conversation_matches E s (conversations_where E staff args))
           updatedAt_desc_id_desc)"

text \<open>\<^verbatim>\<open>(await getConversations({ id, offset: 0, limit: 1 }))[0] || null\<close>\<close>

definition getConversationById :: "'f env \<Rightarrow> Staff \<Rightarrow> int \<Rightarrow> state \<Rightarrow> Conversation option" where
  "getConversationById E staff i s =
     (case getConversations E staff
             \<lparr> arg_limit = Some 1, arg_offset = Some 0,
               arg_type = Absent, arg_customerId = Absent, arg_id = Defined i \<rparr> s of
        [] \<Rightarrow> None
      | c # rest \<Rightarrow> Some c)"

definition addToConversation ::
  "'f env \<Rightarrow> Staff \<Rightarrow> int \<Rightarrow> Staff \<Rightarrow> state \<Rightarrow> (error + StaffConversation) \<times> state" where
  "addToConversation E staff i user s =
     (let allowedTypes = allowedConversationTypes E user
      in case getConversationById E staff i s of
           None \<Rightarrow> (Inl Forbidden, s)
         | Some conversation \<Rightarrow>
             if \<not> List.member allowedTypes (conv_type conversation)
             then (Inl Forbidden, s)
             else staffConversations_upsert
                    \<lparr> staffId = staff_id user, sc_conversationId = i \<rparr> s)"

definition joinConversation ::
  "'f env \<Rightarrow> Staff \<Rightarrow> int \<Rightarrow> state \<Rightarrow> (error + StaffConversation) \<times> state" where
  "joinConversation E staff i s = addToConversation E staff i staff s"

text \<open>
  The where object of \<open>getMessages\<close>:
  \<^verbatim>\<open>clean({ conversation: getConversationRules(staff), id: args.id, conversationId: args.conversationId })\<close>
\<close>

definition messages_where :: "'f env \<Rightarrow> Staff \<Rightarrow> MessageArgs \<Rightarrow> 'f WhereClause" where
  "messages_where E staff args =
     clean [ (''conversation'', WObj (getConversationRules E staff)),
             (''id'', num_or_undefined (arg_message_id args)),
             (''conversationId'', num_or_undefined (arg_conversationId args)) ]"

text \<open>\<^verbatim>\<open>args.order || 'desc'\<close>\<close>

definition order_or_desc :: "order option \<Rightarrow> order" where
  "order_or_desc x = (case x of None \<Rightarrow> desc | Some d \<Rightarrow> d)"

definition getMessages :: "'f env \<Rightarrow> Staff \<Rightarrow> MessageArgs \<Rightarrow> state \<Rightarrow> Message list" where
  "getMessages E staff args s =
     (let p = normalizePages args
      in findMany (messages s) (offset p) (limit p)
           (message_matches E s (messages_where E staff args))
           (createdAt_order (order_or_desc (arg_order args))))"

definition getMessageById :: "'f env \<Rightarrow> Staff \<Rightarrow> int \<Rightarrow> state \<Rightarrow> Message option" where
  "getMessageById E staff i s =
     (case getMessages E staff
             \<lparr> arg_limit = Some 1, arg_offset = Some 0,
               arg_conversationId = None, arg_message_id = Some i, arg_order = None \<rparr> s of
        [] \<Rightarrow> None
      | m # rest \<Rightarrow> Some m)"

text \<open>
  A nullable string in a condition: null and the empty string are falsy; a truthy one
  is handed on as the string it is.
\<close>

definition truthy_string :: "string option \<Rightarrow> string option" where
  "truthy_string x = (case x of None \<Rightarrow> None | Some str \<Rightarrow> if str = [] then None else Some str)"

text \<open>
  The call of the provider inside \<open>sendMessage\<close>, with its body, recorded in
  \<open>posted\<close>; the result is \<^verbatim>\<open>messages[0].id\<close>, a TypeError when the answer holds no
  message.
\<close>

definition post_to_sunshine ::
  "'f env \<Rightarrow> GoodChatConfig \<Rightarrow> string \<Rightarrow> MessageContent \<Rightarrow> state \<Rightarrow> (error + string) \<times> state" where
  "post_to_sunshine E cfg sunshineId c s =
     (let body = \<lparr> author_type = ''business'', author_displayName = appName cfg,
                    post_content = c \<rparr>;
          s' = s\<lparr>posted := posted s @ [(smoochAppId cfg, sunshineId, body)]\<rparr>
      in case postMessage E (smoochAppId cfg) sunshineId body of
           Inl e \<Rightarrow> (Inl (ProviderError e), s')
         | Inr [] \<Rightarrow> (Inl TypeError, s')
         | Inr (i # rest) \<Rightarrow> (Inr i, s'))"

text \<open>
  \<open>sendMessage\<close>, in the order of the source: the access check, the join, the direct
  create when the conversation is not a customer conversation or the configuration is
  falsy, else the provider call (skipped when the conversation has no external identity)
  and the upsert keyed on the provider's message identity. The configuration is read
  again as \<open>cfg\<close> where the source dereferences it.
\<close>

definition sendMessage ::
  "'f env \<Rightarrow> Staff \<Rightarrow> int \<Rightarrow> MessageContent \<Rightarrow> state \<Rightarrow> (error + Message) \<times> state" where
  "sendMessage E staff cid c s =
     (case getConversationById E staff cid s of
        None \<Rightarrow> (Inl Forbidden, s)
      | Some conversation \<Rightarrow>
          (let unsaveMessage =
                 \<lparr> um_conversationId = cid, um_content = c, um_sunshineMessageId = None,
                   um_authorType = STAFF, um_authorId = staff_id staff, um_metadata = [] \<rparr>
           in case joinConversation E staff cid s of
                (Inl e, s1) \<Rightarrow> (Inl e, s1)
              | (Inr joined, s1) \<Rightarrow>
                  if conv_type conversation \<noteq> CUSTOMER \<or> config E = None
                  then message_create unsaveMessage s1
                  else (case config E of
                          None \<Rightarrow> message_create unsaveMessage s1
                        | Some cfg \<Rightarrow>
                            (case truthy_string (sunshineConversationId conversation) of
                               None \<Rightarrow> message_upsert None unsaveMessage s1
                             | Some sunshineId \<Rightarrow>
                                 (case post_to_sunshine E cfg sunshineId c s1 of
                                    (Inl e, s2) \<Rightarrow> (Inl e, s2)
                                  | (Inr sunshineMessageId', s2) \<Rightarrow>
                                      message_upsert (Some sunshineMessageId')
                                        (unsaveMessage
                                           \<lparr>um_sunshineMessageId := Some sunshineMessageId'\<rparr>)
                                        s2)))))"

definition sendTextMessage ::
  "'f env \<Rightarrow> Staff \<Rightarrow> int \<Rightarrow> string \<Rightarrow> state \<Rightarrow> (error + Message) \<times> state" where
  "sendTextMessage E staff cid txt s =
     sendMessage E staff cid [(''type'', ''text''), (''text'', txt)] s"

text \<open>
  The object that \<^verbatim>\<open>abilities(staff)\<close> returns: its eight methods, and a call of one
  of them with what it answers or throws and the store it leaves. The four
  \<^verbatim>\<open>get\<close> methods have no \<^verbatim>\<open>throw\<close> and no write in the source.
\<close>

datatype ability =
  GetConversations ConversationsArgs
  | GetConversationById int
  | GetMessages MessageArgs
  | GetMessageById int
  | SendMessage int MessageContent
  | SendTextMessage int string
  | JoinConversation int
  | AddToConversation int Staff

datatype outcome =
  Conversations "Conversation list"
  | ConversationOrNull "Conversation option"
  | Messages "Message list"
  | MessageOrNull "Message option"
  | Sent Message
  | Joined StaffConversation

fun invoke :: "'f env \<Rightarrow> Staff \<Rightarrow> ability \<Rightarrow> state \<Rightarrow> (error + outcome) \<times> state" where
  "invoke E staff (GetConversations args) s =
     (Inr (Conversations (getConversations E staff args s)), s)"
| "invoke E staff (GetConversationById i) s =
     (Inr (ConversationOrNull (getConversationById E staff i s)), s)"
| "invoke E staff (GetMessages args) s =
     (Inr (Messages (getMessages E staff args s)), s)"
| "invoke E staff (GetMessageById i) s =
     (Inr (MessageOrNull (getMessageById E staff i s)), s)"
| "invoke E staff (SendMessage cid c) s =
     (case sendMessage E staff cid c s of
        (Inl e, s') \<Rightarrow> (Inl e, s')
      | (Inr m, s') \<Rightarrow> (Inr (Sent m), s'))"
| "invoke E staff (SendTextMessage cid txt) s =
     (case sendTextMessage E staff cid txt s of
        (Inl e, s') \<Rightarrow> (Inl e, s')
      | (Inr m, s') \<Rightarrow> (Inr (Sent m), s'))"
| "invoke E staff (JoinConversation i) s =
     (case joinConversation E staff i s of
        (Inl e, s') \<Rightarrow> (Inl e, s')
      | (Inr r, s') \<Rightarrow> (Inr (Joined r), s'))"
| "invoke E staff (AddToConversation i user) s =
     (case addToConversation E staff i user s of
        (Inl e, s') \<Rightarrow> (Inl e, s')
      | (Inr r, s') \<Rightarrow> (Inr (Joined r), s'))"

text \<open>The read operations of the facade.\<close>

fun is_read :: "ability \<Rightarrow> bool" where
  "is_read (GetConversations args) = True"
| "is_read (GetConversationById i) = True"
| "is_read (GetMessages args) = True"
| "is_read (GetMessageById i) = True"
| "is_read a = False"

section \<open>The conversation reconciler (upsertConversation)\<close>

text \<open>
  The update branch of the upsert: the candidate without
  \<^verbatim>\<open>['metadata', 'externalId', 'source', 'customerId']\<close>, that is its type and its own
  \<^verbatim>\<open>sunshineConversationId\<close>.
\<close>

definition omitted_update :: "UnsavedConversation \<Rightarrow> Conversation \<Rightarrow> Conversation" where
  "omitted_update d r =
     r\<lparr> sunshineConversationId := u_sunshineConversationId d, conv_type := u_type d \<rparr>"

text \<open>The follow-up update: the two fill-once fields, each under its own condition.\<close>

definition fill_customerId :: "Conversation \<Rightarrow> UnsavedConversation \<Rightarrow> bool" where
  "fill_customerId conversation d = (customerId conversation = None \<and> u_customerId d \<noteq> None)"

definition fill_source :: "Conversation \<Rightarrow> UnsavedConversation \<Rightarrow> bool" where
  "fill_source conversation d = (truthy_string (source conversation) = None \<and> u_source d \<noteq> None)"

definition fill_update :: "Conversation \<Rightarrow> UnsavedConversation \<Rightarrow> Conversation \<Rightarrow> Conversation" where
  "fill_update conversation d r =
     (let r1 = (if fill_customerId conversation d then r\<lparr>customerId := u_customerId d\<rparr> else r)
      in if fill_source conversation d then r1\<lparr>source := u_source d\<rparr> else r1)"

definition upsertConversation ::
  "string \<Rightarrow> UnsavedConversation \<Rightarrow> state \<Rightarrow> (error + Conversation) \<times> state" where
  "upsertConversation sunshineId d s =
     (case conversation_upsert sunshineId
             (d\<lparr>u_sunshineConversationId := Some sunshineId\<rparr>) (omitted_update d) s of
        (Inl e, s1) \<Rightarrow> (Inl e, s1)
      | (Inr conversation, s1) \<Rightarrow>
          if fill_customerId conversation d \<or> fill_source conversation d
          then conversation_update (conv_id conversation) (fill_update conversation d) s1
          else (Inr conversation, s1))"

section \<open>Store invariants and auxiliary notions\<close>

text \<open>The join rows of one staff member in one conversation.\<close>

definition join_rows :: "int \<Rightarrow> int \<Rightarrow> state \<Rightarrow> StaffConversation list" where
  "join_rows uid cid s =
     filter (\<lambda>r. staffId r = uid \<and> sc_conversationId r = cid) (staffConversations s)"

text \<open>
  The conversation with identifier \<open>i\<close> is in the scope of a staff member: the store
  holds a row with that identifier which the rule engine's object for the staff member,
  read as a where object on its own, matches.
\<close>

definition can_see :: "'f env \<Rightarrow> Staff \<Rightarrow> state \<Rightarrow> int \<Rightarrow> bool" where
  "can_see E staff s i =
     list_ex (\<lambda>c. conv_id c = i \<and> conversation_matches E s (getConversationRules E staff) c)
       (conversations s)"

text \<open>The message rows that carry a given provider message identity.\<close>

definition rows_with_identity :: "string \<Rightarrow> state \<Rightarrow> Message list" where
  "rows_with_identity k s = filter (\<lambda>m. sunshineMessageId m = Some k) (messages s)"

text \<open>The store's unique index on \<^verbatim>\<open>Message.sunshineMessageId\<close> (nulls are not indexed).\<close>

definition unique_message_identities :: "state \<Rightarrow> bool" where
  "unique_message_identities s = distinct (List.map_filter sunshineMessageId (messages s))"

text \<open>The conversation rows that carry a given external conversation identity.\<close>

definition conversations_with_identity :: "string \<Rightarrow> state \<Rightarrow> Conversation list" where
  "conversations_with_identity k s =
     filter (\<lambda>r. sunshineConversationId r = Some k) (conversations s)"

text \<open>
  The row that reconciling candidate \<open>d\<close> at time \<open>t\<close> leaves in place of an existing row
  \<open>r\<close>: the type and the external identity are the candidate's, the customer and the
  source are filled where they were empty, the store stamps \<^verbatim>\<open>updatedAt\<close>, and the
  identifier, the metadata and \<^verbatim>\<open>createdAt\<close> stay.
\<close>

definition merged :: "UnsavedConversation \<Rightarrow> int \<Rightarrow> Conversation \<Rightarrow> Conversation" where
  "merged d t r =
     \<lparr> conv_id = conv_id r,
       sunshineConversationId = u_sunshineConversationId d,
       conv_type = u_type d,
       customerId = (if customerId r = None then u_customerId d else customerId r),
       source = (if truthy_string (source r) = None \<and> u_source d \<noteq> None
                 then u_source d else source r),
       metadata = metadata r,
       createdAt = createdAt r,
       updatedAt = t \<rparr>"

text \<open>
  Two objects with the same keys in the same order whose values agree except where both
  are falsy.
\<close>

definition same_but_falsy :: "(string \<times> 'f wval) list \<Rightarrow> (string \<times> 'f wval) list \<Rightarrow> bool" where
  "same_but_falsy a b =
     list_all2 (\<lambda>x y. fst x = fst y \<and> (snd x = snd y \<or> (\<not> truthy (snd x) \<and> \<not> truthy (snd y)))) a b"

section \<open>Example data\<close>

text \<open>
  A staff member, a rule engine that shows customer conversations only and lets staff 1
  alone join them, and a store.
\<close>

definition demo_staff :: Staff where
  "demo_staff = \<lparr> staff_id = 1 \<rparr>"


definition demo_config :: GoodChatConfig where
  "demo_config = \<lparr> appName = ''GoodChat'', smoochAppId = ''app-1'' \<rparr>"

definition demo_env :: "unit env" where
  "demo_env =
     \<lparr> getConversationRules = (\<lambda>staff. [(''type'', WType CUSTOMER)]),
       allowedConversationTypes =
         (\<lambda>staff. if staff_id staff = 1 then [CUSTOMER, OtherType ''PUBLIC'']
                  else [OtherType ''PUBLIC'']),
       constraint_holds = (\<lambda>k v s c. False),
       config = Some demo_config,
       postMessage = (\<lambda>app sunshineId body. Inr [''prov-1'']) \<rparr>"

definition demo_customer_conversation :: Conversation where
  "demo_customer_conversation =
     \<lparr> conv_id = 7, sunshineConversationId = Some ''ext-99'', conv_type = CUSTOMER,
       customerId = None, source = None, metadata = [], createdAt = 1, updatedAt = 1 \<rparr>"

definition demo_private_conversation :: Conversation where
  "demo_private_conversation =
     \<lparr> conv_id = 5, sunshineConversationId = None, conv_type = OtherType ''PRIVATE'',
       customerId = None, source = None, metadata = [], createdAt = 2, updatedAt = 2 \<rparr>"

definition demo_private_message :: Message where
  "demo_private_message =
     \<lparr> msg_id = 1, conversationId = 5, content = [(''type'', ''text''), (''text'', ''hi'')],
       sunshineMessageId = None, authorType = STAFF, authorId = 2, msg_metadata = [],
       msg_createdAt = 3 \<rparr>"

definition demo_other_conversation :: Conversation where
  "demo_other_conversation =
     \<lparr> conv_id = 9, sunshineConversationId = Some ''ext-100'', conv_type = CUSTOMER,
       customerId = Some 4, source = Some ''whatsapp'', metadata = [], createdAt = 3,
       updatedAt = 3 \<rparr>"

definition demo_state :: state where
  "demo_state =
     \<lparr> conversations =
         [demo_customer_conversation, demo_private_conversation, demo_other_conversation],
       messages = [demo_private_message],
       staffConversations = [],
       now = 10,
       posted = [] \<rparr>"

text \<open>The same store after the provider's webhook has stored the echo of \<open>prov-1\<close>.\<close>

definition demo_echo :: Message where
  "demo_echo =
     \<lparr> msg_id = 2, conversationId = 7, content = [(''type'', ''text''), (''text'', ''hello'')],
       sunshineMessageId = Some ''prov-1'', authorType = STAFF, authorId = 1,
       msg_metadata = [(''from'', ''webhook'')], msg_createdAt = 9 \<rparr>"

definition demo_state_with_echo :: state where
  "demo_state_with_echo = demo_state\<lparr>messages := [demo_private_message, demo_echo]\<rparr>"


text \<open>A provider that is down, and a deployment without configuration.\<close>

definition demo_env_provider_down :: "unit env" where
  "demo_env_provider_down = demo_env\<lparr>postMessage := (\<lambda>app sunshineId body. Inl ''503'')\<rparr>"


text \<open>
  Other rule engines over the same store: one whose object asks for conversations without
  a customer, one whose object names conversation 7 alone, and one with an empty object
  (every conversation is in scope) that lets staff 1 join customer and private
  conversations.
\<close>

definition demo_env_no_customer :: "unit env" where
  "demo_env_no_customer = demo_env\<lparr>getConversationRules := (\<lambda>staff. [(''customerId'', WNull)])\<rparr>"

definition demo_env_only_seven :: "unit env" where
  "demo_env_only_seven = demo_env\<lparr>getConversationRules := (\<lambda>staff. [(''id'', WNum 7)])\<rparr>"

definition demo_env_open :: "unit env" where
  "demo_env_open =
     demo_env\<lparr> getConversationRules := (\<lambda>staff. []),
               allowedConversationTypes :=
                 (\<lambda>staff. if staff_id staff = 1 then [CUSTOMER, OtherType ''PRIVATE'']
                          else [OtherType ''PUBLIC'']) \<rparr>"

text \<open>Reads without any filter.\<close>

definition demo_args :: ConversationsArgs where
  "demo_args =
     \<lparr> arg_limit = None, arg_offset = None, arg_type = Absent, arg_customerId = Absent,
       arg_id = Absent \<rparr>"

definition demo_message_args :: MessageArgs where
  "demo_message_args =
     \<lparr> arg_limit = None, arg_offset = None, arg_conversationId = None,
       arg_message_id = None, arg_order = None \<rparr>"

definition demo_hello :: MessageContent where
  "demo_hello = [(''type'', ''text''), (''text'', ''hello'')]"




section \<open>Properties of the pagination normalizer\<close>

text \<open>
  C5, as stated, fails: a requested limit of 0 lies in the range 0..100 and is still
  replaced by the default 25, because 0 is falsy for \<^verbatim>\<open>args.limit || 25\<close>.
\<close>

theorem normalizePages_limit_zero_counterexample:
  "limit (normalizePages \<lparr> arg_limit = Some 0, arg_offset = Some 0 \<rparr>) = 25"
  by (simp add: normalizePages_def or_default_def clamp_def)

text \<open>
  C5, amended: no input is rejected (the normalizer is total); both results lie in
  0..100; an absent limit and a limit of 0 give 25, any other limit is clamped, so a limit
  in 1..100 is returned as it is; an absent offset gives 0 and an offset in 0..100 is
  returned as it is; a negative value gives 0 and a value above 100 gives 100.
\<close>

theorem normalizePages_amended:
  "0 \<le> limit (normalizePages args) \<and> limit (normalizePages args) \<le> 100
   \<and> 0 \<le> offset (normalizePages args) \<and> offset (normalizePages args) \<le> 100
   \<and> (arg_limit args = None \<longrightarrow> limit (normalizePages args) = 25)
   \<and> (arg_limit args = Some 0 \<longrightarrow> limit (normalizePages args) = 25)
   \<and> (\<forall>l. arg_limit args = Some l \<and> 1 \<le> l \<and> l \<le> 100 \<longrightarrow> limit (normalizePages args) = l)
   \<and> (\<forall>l. arg_limit args = Some l \<and> l < 0 \<longrightarrow> limit (normalizePages args) = 0)
   \<and> (\<forall>l. arg_limit args = Some l \<and> 100 < l \<longrightarrow> limit (normalizePages args) = 100)
   \<and> (arg_offset args = None \<longrightarrow> offset (normalizePages args) = 0)
   \<and> (\<forall>k. arg_offset args = Some k \<and> 0 \<le> k \<and> k \<le> 100 \<longrightarrow> offset (normalizePages args) = k)
   \<and> (\<forall>k. arg_offset args = Some k \<and> k < 0 \<longrightarrow> offset (normalizePages args) = 0)
   \<and> (\<forall>k. arg_offset args = Some k \<and> 100 < k \<longrightarrow> offset (normalizePages args) = 100)"
  by (auto simp: normalizePages_def or_default_def clamp_def Let_def split: option.splits)

theorem normalizePages_amended_witness:
  "limit (normalizePages \<lparr> arg_limit = Some 40, arg_offset = Some 7 \<rparr>) = 40
   \<and> offset (normalizePages \<lparr> arg_limit = Some 40, arg_offset = Some 7 \<rparr>) = 7
   \<and> limit (normalizePages \<lparr> arg_limit = None, arg_offset = None \<rparr>) = 25
   \<and> offset (normalizePages \<lparr> arg_limit = None, arg_offset = None \<rparr>) = 0
   \<and> limit (normalizePages \<lparr> arg_limit = Some (- 3), arg_offset = Some 250 \<rparr>) = 0
   \<and> offset (normalizePages \<lparr> arg_limit = Some (- 3), arg_offset = Some 250 \<rparr>) = 100"
  using normalizePages_amended [of "\<lparr> arg_limit = Some 40, arg_offset = Some 7 \<rparr>"]
    normalizePages_amended [of "\<lparr> arg_limit = None, arg_offset = None \<rparr>"]
    normalizePages_amended [of "\<lparr> arg_limit = Some (- 3), arg_offset = Some 250 \<rparr>"]
  by simp

section \<open>JavaScript objects\<close>


lemma map_fst_obj_put:
  "map fst (obj_put k v obj) = (if k \<in> set (map fst obj) then map fst obj else map fst obj @ [k])"
  by (induction obj) (force+)

lemma keys_obj_put: "fst ` set (obj_put k v obj) = insert k (fst ` set obj)"
proof -
  have "set (map fst (obj_put k v obj)) = insert k (set (map fst obj))"
    unfolding map_fst_obj_put by auto
  then show ?thesis by simp
qed

lemma obj_put_fresh: "k \<notin> set (map fst obj) \<Longrightarrow> obj_put k v obj = obj @ [(k, v)]"
  by (induction obj) auto

lemma same_but_falsy_refl: "same_but_falsy a a"
  by (simp add: same_but_falsy_def list_all2_refl)

lemma same_but_falsy_clean: "same_but_falsy a b \<Longrightarrow> clean a = clean b"
  unfolding same_but_falsy_def clean_def
  by (induction a b rule: list_all2_induct) (auto split: prod.splits)

lemma same_but_falsy_put:
  "same_but_falsy a b \<Longrightarrow> v = w \<or> (\<not> truthy v \<and> \<not> truthy w)
     \<Longrightarrow> same_but_falsy (obj_put k v a) (obj_put k w b)"
  unfolding same_but_falsy_def
  by (induction a b rule: list_all2_induct) (auto split: prod.splits)

lemma same_but_falsy_spread:
  "same_but_falsy a b \<Longrightarrow> same_but_falsy x y \<Longrightarrow> same_but_falsy (spread a x) (spread b y)"
  unfolding spread_def
proof (induction x arbitrary: a b y)
  case Nil
  then show ?case by (simp add: same_but_falsy_def)
next
  case (Cons p x)
  then obtain q y' where y: "y = q # y'" and pq: "fst p = fst q"
      "snd p = snd q \<or> (\<not> truthy (snd p) \<and> \<not> truthy (snd q))" and r: "same_but_falsy x y'"
    by (auto simp: same_but_falsy_def list_all2_Cons1)
  have "same_but_falsy (obj_put (fst p) (snd p) a) (obj_put (fst q) (snd q) b)"
    using same_but_falsy_put [OF Cons.prems(1) pq(2)] pq(1) by simp
  from Cons.IH [OF this r] show ?case
    by (simp add: y case_prod_beta)
qed

lemma same_but_falsy_append:
  "same_but_falsy a b \<Longrightarrow> same_but_falsy x y \<Longrightarrow> same_but_falsy (a @ x) (b @ y)"
  by (simp add: same_but_falsy_def list_all2_appendI)

lemma conversations_where_falsy_id:
  "conversations_where E staff (args\<lparr>arg_id := Defined 0\<rparr>)
     = conversations_where E staff (args\<lparr>arg_id := Undefined\<rparr>)"
  unfolding conversations_where_def pick_conversation_args_def
  apply (rule same_but_falsy_clean)
  apply (rule same_but_falsy_spread [OF same_but_falsy_refl])
  apply simp
  apply (intro same_but_falsy_append same_but_falsy_refl)
  apply (simp add: same_but_falsy_def entry_def)
  done


section \<open>Ordering of the reads\<close>



lemma set_insert_by: "set (insert_by le x xs) = insert x (set xs)"
  by (induction xs) auto

lemma set_sort_by: "set (sort_by le xs) = set xs"
  unfolding sort_by_def by (induction xs) (auto simp: set_insert_by)









section \<open>Falsy filters\<close>

lemma same_but_falsy_entry:
  "\<not> truthy (f a) \<Longrightarrow> same_but_falsy (entry k f (Defined a)) (entry k f Undefined)"
  by (simp add: same_but_falsy_def entry_def)

lemma conversations_where_falsy_customerId:
  "conversations_where E staff (args\<lparr>arg_customerId := Defined 0\<rparr>)
     = conversations_where E staff (args\<lparr>arg_customerId := Undefined\<rparr>)"
  unfolding conversations_where_def pick_conversation_args_def
  apply (rule same_but_falsy_clean)
  apply (rule same_but_falsy_spread [OF same_but_falsy_refl])
  apply simp
  apply (intro same_but_falsy_append same_but_falsy_refl same_but_falsy_entry)
  apply simp
  done

lemma clean_append: "clean (a @ b) = clean a @ clean b"
  by (simp add: clean_def)

lemma clean_put_after_falsy:
  "\<not> truthy w \<Longrightarrow> k \<noteq> j \<Longrightarrow> clean (obj_put k v (obj @ [(j, w)])) = clean (obj_put k v obj)"
  by (induction obj) (auto simp: clean_def)

lemma conversations_where_absent_id:
  assumes "''id'' \<notin> fst ` set (getConversationRules E staff)"
  shows "conversations_where E staff (args\<lparr>arg_id := Undefined\<rparr>)
           = conversations_where E staff (args\<lparr>arg_id := Absent\<rparr>)"
proof -
  let ?r = "getConversationRules E staff"
  let ?r1 = "spread ?r (entry ''type'' WType (arg_type args))"
  let ?y = "entry ''customerId'' WNum (arg_customerId args)"
  have k1: "''id'' \<notin> fst ` set ?r1"
    using assms by (cases "arg_type args") (simp_all add: entry_def spread_def keys_obj_put)
  have s1: "spread ?r (entry ''type'' WType (arg_type args) @ entry ''id'' WNum Undefined @ ?y)
            = spread (obj_put ''id'' WUndefined ?r1) ?y"
    by (simp add: spread_def entry_def)
  have s2: "spread ?r (entry ''type'' WType (arg_type args) @ entry ''id'' WNum Absent @ ?y)
            = spread ?r1 ?y"
    by (simp add: spread_def entry_def)
  have p: "obj_put ''id'' WUndefined ?r1 = ?r1 @ [(''id'', WUndefined)]"
    using k1 by (intro obj_put_fresh) simp
  have c: "clean (spread (?r1 @ [(''id'', WUndefined)]) ?y) = clean (spread ?r1 ?y)"
    by (cases "arg_customerId args")
       (simp_all add: entry_def spread_def clean_append clean_put_after_falsy, simp add: clean_def)
  show ?thesis
    unfolding conversations_where_def pick_conversation_args_def
    by (simp add: s1 s2 p c)
qed


lemma conversations_where_absent_customerId:
  assumes "''customerId'' \<notin> fst ` set (getConversationRules E staff)"
  shows "conversations_where E staff (args\<lparr>arg_customerId := Undefined\<rparr>)
           = conversations_where E staff (args\<lparr>arg_customerId := Absent\<rparr>)"
proof -
  let ?r = "getConversationRules E staff"
  let ?x = "entry ''type'' WType (arg_type args) @ entry ''id'' WNum (arg_id args)"
  have k: "''customerId'' \<notin> fst ` set (spread ?r ?x)"
    using assms
    by (cases "arg_type args"; cases "arg_id args")
       (simp_all add: entry_def spread_def keys_obj_put)
  have s1: "spread ?r (?x @ entry ''customerId'' WNum Undefined)
              = obj_put ''customerId'' WUndefined (spread ?r ?x)"
    by (simp add: spread_def entry_def)
  have s2: "spread ?r (?x @ entry ''customerId'' WNum Absent) = spread ?r ?x"
    by (simp add: spread_def entry_def)
  have "obj_put ''customerId'' WUndefined (spread ?r ?x) = spread ?r ?x @ [(''customerId'', WUndefined)]"
    using k by (intro obj_put_fresh) simp
  then have "clean (obj_put ''customerId'' WUndefined (spread ?r ?x)) = clean (spread ?r ?x)"
    by (simp add: clean_def)
  then show ?thesis
    unfolding conversations_where_def pick_conversation_args_def
    using s1 s2 by simp
qed

lemma messages_where_falsy_id:
  "messages_where E staff (margs\<lparr>arg_message_id := Some 0\<rparr>)
     = messages_where E staff (margs\<lparr>arg_message_id := None\<rparr>)"
  by (simp add: messages_where_def clean_def num_or_undefined_def)

lemma messages_where_falsy_conversationId:
  "messages_where E staff (margs\<lparr>arg_conversationId := Some 0\<rparr>)
     = messages_where E staff (margs\<lparr>arg_conversationId := None\<rparr>)"
  by (simp add: messages_where_def clean_def num_or_undefined_def)

lemma getConversations_cong:
  "conversations_where E staff a = conversations_where E staff b
     \<Longrightarrow> arg_limit a = arg_limit b \<Longrightarrow> arg_offset a = arg_offset b
     \<Longrightarrow> getConversations E staff a s = getConversations E staff b s"
  by (simp add: getConversations_def normalizePages_def)

lemma getMessages_cong:
  "messages_where E staff a = messages_where E staff b
     \<Longrightarrow> arg_limit a = arg_limit b \<Longrightarrow> arg_offset a = arg_offset b
     \<Longrightarrow> arg_order a = arg_order b
     \<Longrightarrow> getMessages E staff a s = getMessages E staff b s"
  by (simp add: getMessages_def normalizePages_def)

text \<open>
  C10: a filter whose value is the falsy number 0 drops out of the compiled where object
  exactly as a filter whose value is undefined does, for \<open>id\<close> and \<open>customerId\<close> of
  \<open>getConversations\<close> and for \<open>id\<close> and \<open>conversationId\<close> of \<open>getMessages\<close>, so
  the read returns what it returns without that filter, not the rows whose field is 0. For
  \<open>getConversations\<close> the read also equals the one whose argument object lacks the key,
  as long as the rule engine's object has no entry under the same key (the caller's key
  replaces such an entry before \<open>clean\<close> runs).
\<close>
theorem falsy_filter_stripped:
  "conversations_where E staff (args\<lparr>arg_id := Defined 0\<rparr>)
     = conversations_where E staff (args\<lparr>arg_id := Undefined\<rparr>)
   \<and> getConversations E staff (args\<lparr>arg_id := Defined 0\<rparr>) s
     = getConversations E staff (args\<lparr>arg_id := Undefined\<rparr>) s
   \<and> conversations_where E staff (args\<lparr>arg_customerId := Defined 0\<rparr>)
     = conversations_where E staff (args\<lparr>arg_customerId := Undefined\<rparr>)
   \<and> getConversations E staff (args\<lparr>arg_customerId := Defined 0\<rparr>) s
     = getConversations E staff (args\<lparr>arg_customerId := Undefined\<rparr>) s
   \<and> (''id'' \<notin> fst ` set (getConversationRules E staff) \<longrightarrow>
        getConversations E staff (args\<lparr>arg_id := Defined 0\<rparr>) s
          = getConversations E staff (args\<lparr>arg_id := Absent\<rparr>) s)
   \<and> (''customerId'' \<notin> fst ` set (getConversationRules E staff) \<longrightarrow>
        getConversations E staff (args\<lparr>arg_customerId := Defined 0\<rparr>) s
          = getConversations E staff (args\<lparr>arg_customerId := Absent\<rparr>) s)
   \<and> messages_where E staff (margs\<lparr>arg_message_id := Some 0\<rparr>)
     = messages_where E staff (margs\<lparr>arg_message_id := None\<rparr>)
   \<and> getMessages E staff (margs\<lparr>arg_message_id := Some 0\<rparr>) s
     = getMessages E staff (margs\<lparr>arg_message_id := None\<rparr>) s
   \<and> messages_where E staff (margs\<lparr>arg_conversationId := Some 0\<rparr>)
     = messages_where E staff (margs\<lparr>arg_conversationId := None\<rparr>)
   \<and> getMessages E staff (margs\<lparr>arg_conversationId := Some 0\<rparr>) s
     = getMessages E staff (margs\<lparr>arg_conversationId := None\<rparr>) s"
proof -
  have a: "getConversations E staff (args\<lparr>arg_id := Defined 0\<rparr>) s
             = getConversations E staff (args\<lparr>arg_id := Undefined\<rparr>) s"
    by (rule getConversations_cong [OF conversations_where_falsy_id]) simp_all
  have b: "getConversations E staff (args\<lparr>arg_customerId := Defined 0\<rparr>) s
             = getConversations E staff (args\<lparr>arg_customerId := Undefined\<rparr>) s"
    by (rule getConversations_cong [OF conversations_where_falsy_customerId]) simp_all
  have c: "getConversations E staff (args\<lparr>arg_id := Undefined\<rparr>) s
             = getConversations E staff (args\<lparr>arg_id := Absent\<rparr>) s"
    if "''id'' \<notin> fst ` set (getConversationRules E staff)"
    by (rule getConversations_cong [OF conversations_where_absent_id [OF that]]) simp_all
  have d: "getConversations E staff (args\<lparr>arg_customerId := Undefined\<rparr>) s
             = getConversations E staff (args\<lparr>arg_customerId := Absent\<rparr>) s"
    if "''customerId'' \<notin> fst ` set (getConversationRules E staff)"
    by (rule getConversations_cong [OF conversations_where_absent_customerId [OF that]]) simp_all
  have e: "getMessages E staff (margs\<lparr>arg_message_id := Some 0\<rparr>) s
             = getMessages E staff (margs\<lparr>arg_message_id := None\<rparr>) s"
    by (rule getMessages_cong [OF messages_where_falsy_id]) simp_all
  have f: "getMessages E staff (margs\<lparr>arg_conversationId := Some 0\<rparr>) s
             = getMessages E staff (margs\<lparr>arg_conversationId := None\<rparr>) s"
    by (rule getMessages_cong [OF messages_where_falsy_conversationId]) simp_all
  show ?thesis
  proof (intro conjI impI)
    show "getConversations E staff (args\<lparr>arg_id := Defined 0\<rparr>) s
            = getConversations E staff (args\<lparr>arg_id := Absent\<rparr>) s"
      if "''id'' \<notin> fst ` set (getConversationRules E staff)"
      using a c [OF that] by simp
    show "getConversations E staff (args\<lparr>arg_customerId := Defined 0\<rparr>) s
            = getConversations E staff (args\<lparr>arg_customerId := Absent\<rparr>) s"
      if "''customerId'' \<notin> fst ` set (getConversationRules E staff)"
      using b d [OF that] by simp
  qed (rule a b e f conversations_where_falsy_id conversations_where_falsy_customerId
        messages_where_falsy_id messages_where_falsy_conversationId)+
qed


section \<open>Joining a conversation\<close>

lemma find_filter_Nil: "(find P xs = None) = (filter P xs = [])"
  by (induction xs) auto

lemma find_Some_filter: "find P xs = Some x \<Longrightarrow> filter P xs \<noteq> [] \<and> P x \<and> x \<in> set xs"
  by (induction xs) (auto split: if_splits)

lemma staffConversations_upsert_result:
  "fst (staffConversations_upsert \<lparr> staffId = u, sc_conversationId = i \<rparr> s)
     = Inr \<lparr> staffId = u, sc_conversationId = i \<rparr>"
proof (cases "find (\<lambda>r. staffId r = u \<and> sc_conversationId r = i) (staffConversations s)")
  case None
  then show ?thesis by (simp add: staffConversations_upsert_def)
next
  case (Some r)
  then have "staffId r = u \<and> sc_conversationId r = i"
    by (auto dest: find_Some_filter)
  then have "r = \<lparr> staffId = u, sc_conversationId = i \<rparr>" by (cases r) simp
  with Some show ?thesis by (simp add: staffConversations_upsert_def)
qed

lemma staffConversations_upsert_state:
  "snd (staffConversations_upsert \<lparr> staffId = u, sc_conversationId = i \<rparr> s)
     = (if join_rows u i s = [] 
        then s\<lparr>staffConversations := staffConversations s @ [\<lparr> staffId = u, sc_conversationId = i \<rparr>]\<rparr>
        else s)"
proof (cases "find (\<lambda>r. staffId r = u \<and> sc_conversationId r = i) (staffConversations s)")
  case None
  then have "join_rows u i s = []" by (simp add: join_rows_def find_filter_Nil)
  with None show ?thesis by (simp add: staffConversations_upsert_def)
next
  case (Some r)
  then show ?thesis
    by (auto simp: staffConversations_upsert_def join_rows_def dest: find_Some_filter)
qed




lemma addToConversation_allowed:
  "getConversationById E staff i s = Some c
     \<Longrightarrow> List.member (allowedConversationTypes E user) (conv_type c)
     \<Longrightarrow> addToConversation E staff i user s
           = staffConversations_upsert \<lparr> staffId = staff_id user, sc_conversationId = i \<rparr> s"
  by (simp add: addToConversation_def)

lemma addToConversation_cases:
  "addToConversation E staff i user s = (Inl Forbidden, s)
   \<or> addToConversation E staff i user s
       = staffConversations_upsert \<lparr> staffId = staff_id user, sc_conversationId = i \<rparr> s"
  by (auto simp: addToConversation_def Let_def split: option.splits)




section \<open>Sending a message\<close>

lemma foldr_max_upper: "x \<in> set ids \<Longrightarrow> x \<le> foldr max ids (0::int)"
  by (induction ids) auto

lemma next_id_fresh: "next_id ids \<notin> set ids"
proof
  assume "next_id ids \<in> set ids"
  then have "next_id ids \<le> foldr max ids 0" by (rule foldr_max_upper)
  then show False by (simp add: next_id_def)
qed

lemma upsert_keeps_tables:
  "messages (snd (staffConversations_upsert r s)) = messages s
   \<and> conversations (snd (staffConversations_upsert r s)) = conversations s
   \<and> posted (snd (staffConversations_upsert r s)) = posted s
   \<and> now (snd (staffConversations_upsert r s)) = now s"
  by (simp add: staffConversations_upsert_def split: option.splits)

lemma joinConversation_keeps_tables:
  "messages (snd (joinConversation E staff i s)) = messages s
   \<and> conversations (snd (joinConversation E staff i s)) = conversations s
   \<and> posted (snd (joinConversation E staff i s)) = posted s
   \<and> now (snd (joinConversation E staff i s)) = now s"
  using addToConversation_cases [of E staff i staff s]
  by (auto simp: joinConversation_def upsert_keeps_tables)

lemma joinConversation_allowed:
  assumes "getConversationById E staff i s = Some c"
    and "List.member (allowedConversationTypes E staff) (conv_type c)"
  shows "fst (joinConversation E staff i s) = Inr \<lparr> staffId = staff_id staff, sc_conversationId = i \<rparr>"
    and "join_rows (staff_id staff) i (snd (joinConversation E staff i s)) \<noteq> []"
proof -
  have eq: "joinConversation E staff i s
          = staffConversations_upsert \<lparr> staffId = staff_id staff, sc_conversationId = i \<rparr> s"
    unfolding joinConversation_def using assms by (rule addToConversation_allowed)
  show "fst (joinConversation E staff i s) = Inr \<lparr> staffId = staff_id staff, sc_conversationId = i \<rparr>"
    unfolding eq by (rule staffConversations_upsert_result)
  show "join_rows (staff_id staff) i (snd (joinConversation E staff i s)) \<noteq> []"
    unfolding eq staffConversations_upsert_state by (simp add: join_rows_def)
qed

text \<open>\<open>sendMessage\<close> once the access check and the join have passed.\<close>

lemma sendMessage_after_join:
  assumes vis: "getConversationById E staff cid s = Some conversation"
    and allowed: "List.member (allowedConversationTypes E staff) (conv_type conversation)"
  shows "sendMessage E staff cid c s =
     (let unsaveMessage =
            \<lparr> um_conversationId = cid, um_content = c, um_sunshineMessageId = None,
              um_authorType = STAFF, um_authorId = staff_id staff, um_metadata = [] \<rparr>;
          s1 = snd (joinConversation E staff cid s)
      in if conv_type conversation \<noteq> CUSTOMER \<or> config E = None
         then message_create unsaveMessage s1
         else (case config E of
                 None \<Rightarrow> message_create unsaveMessage s1
               | Some cfg \<Rightarrow>
                   (case truthy_string (sunshineConversationId conversation) of
                      None \<Rightarrow> message_upsert None unsaveMessage s1
                    | Some sunshineId \<Rightarrow>
                        (case post_to_sunshine E cfg sunshineId c s1 of
                           (Inl e, s2) \<Rightarrow> (Inl e, s2)
                         | (Inr k, s2) \<Rightarrow>
                             message_upsert (Some k)
                               (unsaveMessage\<lparr>um_sunshineMessageId := Some k\<rparr>) s2))))"
proof -
  obtain r s1 where j: "joinConversation E staff cid s = (r, s1)"
    by (cases "joinConversation E staff cid s")
  have "r = Inr \<lparr> staffId = staff_id staff, sc_conversationId = cid \<rparr>"
    using joinConversation_allowed(1) [OF vis allowed] j by simp
  then show ?thesis
    by (simp add: sendMessage_def vis j Let_def)
qed



lemma post_to_sunshine_failure:
  "postMessage E (smoochAppId cfg) sid
      \<lparr> author_type = ''business'', author_displayName = appName cfg, post_content = c \<rparr> = Inl e
   \<Longrightarrow> post_to_sunshine E cfg sid c s
         = (Inl (ProviderError e),
            s\<lparr>posted := posted s @ [(smoochAppId cfg, sid,
                 \<lparr> author_type = ''business'', author_displayName = appName cfg, post_content = c \<rparr>)]\<rparr>)"
  by (simp add: post_to_sunshine_def Let_def)

lemma post_to_sunshine_success:
  "postMessage E (smoochAppId cfg) sid
      \<lparr> author_type = ''business'', author_displayName = appName cfg, post_content = c \<rparr> = Inr (k # rest)
   \<Longrightarrow> post_to_sunshine E cfg sid c s
         = (Inr k,
            s\<lparr>posted := posted s @ [(smoochAppId cfg, sid,
                 \<lparr> author_type = ''business'', author_displayName = appName cfg, post_content = c \<rparr>)]\<rparr>)"
  by (simp add: post_to_sunshine_def Let_def)

text \<open>
  C8: \<open>sendMessage\<close> on a conversation of type \<open>CUSTOMER\<close> that carries an external
  identity, with a configuration, where the provider's \<open>postMessage\<close> throws \<open>e\<close>: the
  call fails with that same error and the message table is as it was before the call.
\<close>
theorem sendMessage_provider_failure:
  assumes vis: "getConversationById E staff cid s = Some conversation"
    and allowed: "List.member (allowedConversationTypes E staff) (conv_type conversation)"
    and bridged: "conv_type conversation = CUSTOMER" "config E = Some cfg"
    and ext: "sunshineConversationId conversation = Some sid" "sid \<noteq> []"
    and fails: "postMessage E (smoochAppId cfg) sid
                  \<lparr> author_type = ''business'', author_displayName = appName cfg,
                    post_content = c \<rparr> = Inl e"
  shows "fst (sendMessage E staff cid c s) = Inl (ProviderError e)
       \<and> messages (snd (sendMessage E staff cid c s)) = messages s"
  using bridged ext
  by (simp add: sendMessage_after_join [OF vis allowed] Let_def truthy_string_def
        post_to_sunshine_failure [OF fails] joinConversation_keeps_tables)


section \<open>The keyed upsert of sendMessage\<close>

lemma find_filter: "find P xs = (case filter P xs of [] \<Rightarrow> None | x # rest \<Rightarrow> Some x)"
  by (induction xs) auto

lemma unique_by_messages:
  "messages s' = messages s \<Longrightarrow> unique_message_identities s' = unique_message_identities s"
  by (simp add: unique_message_identities_def)

lemma identity_in_map_filter:
  "(k \<in> set (List.map_filter f ms)) = (filter (\<lambda>m. f m = Some k) ms \<noteq> [])"
  by (induction ms) (auto simp: List.map_filter_simps split: option.splits)

lemma distinct_identities_filter:
  "distinct (List.map_filter f ms) \<Longrightarrow> length (filter (\<lambda>m. f m = Some k) ms) \<le> 1"
proof (induction ms)
  case Nil
  then show ?case by simp
next
  case (Cons m ms)
  show ?case
  proof (cases "f m = Some k")
    case True
    with Cons.prems have "k \<notin> set (List.map_filter f ms)"
      by (simp add: List.map_filter_simps)
    then have "filter (\<lambda>m. f m = Some k) ms = []"
      by (simp add: identity_in_map_filter)
    with True show ?thesis by simp
  next
    case False
    with Cons show ?thesis by (auto simp: List.map_filter_simps split: option.splits)
  qed
qed

lemma unique_rows_with_identity:
  "unique_message_identities s \<Longrightarrow> length (rows_with_identity k s) \<le> 1"
  unfolding unique_message_identities_def rows_with_identity_def
  by (rule distinct_identities_filter)

lemma map_filter_append:
  "List.map_filter f (xs @ ys) = List.map_filter f xs @ List.map_filter f ys"
  by (simp add: List.map_filter_def)

lemma message_create_unique:
  assumes "unique_message_identities s"
  shows "unique_message_identities (snd (message_create d s))"
proof (cases "um_sunshineMessageId d")
  case None
  then show ?thesis using assms
    by (simp add: message_create_def unique_message_identities_def map_filter_append
          List.map_filter_simps saved_message_def)
next
  case (Some k)
  show ?thesis
  proof (cases "list_ex (\<lambda>m. sunshineMessageId m = Some k) (messages s)")
    case True
    with Some assms show ?thesis by (simp add: message_create_def)
  next
    case False
    then have "filter (\<lambda>m. sunshineMessageId m = Some k) (messages s) = []"
      by (simp add: list_ex_iff filter_empty_conv)
    then have "k \<notin> set (List.map_filter sunshineMessageId (messages s))"
      by (simp add: identity_in_map_filter)
    with Some False assms show ?thesis
      by (simp add: message_create_def unique_message_identities_def map_filter_append
            List.map_filter_simps saved_message_def)
  qed
qed

lemma message_upsert_unique:
  assumes "unique_message_identities s"
  shows "unique_message_identities (snd (message_upsert key d s))"
  using assms message_create_unique [OF assms, of d]
  by (simp add: message_upsert_def split: option.splits)

lemma post_to_sunshine_messages:
  "messages (snd (post_to_sunshine E cfg sid c s)) = messages s"
  by (simp add: post_to_sunshine_def Let_def split: sum.splits list.splits)

lemma sendMessage_unique:
  assumes u: "unique_message_identities s"
  shows "unique_message_identities (snd (sendMessage E staff cid c s))"
proof (cases "getConversationById E staff cid s")
  case None
  then show ?thesis using u by (simp add: sendMessage_def)
next
  case (Some conversation)
  obtain r s1 where j: "joinConversation E staff cid s = (r, s1)"
    by (cases "joinConversation E staff cid s")
  have "messages s1 = messages s"
    using joinConversation_keeps_tables [of E staff cid s] j by simp
  then have u1: "unique_message_identities s1"
    using u unique_by_messages [of s1 s] by simp
  have u2: "unique_message_identities (snd (post_to_sunshine E cfg sid c s1))" for cfg sid
    using u1 unique_by_messages [OF post_to_sunshine_messages, of E cfg sid c s1] by simp
  show ?thesis
  proof (cases r)
    case (Inl e)
    then show ?thesis using u1 by (simp add: sendMessage_def Let_def Some j)
  next
    case (Inr joined)
    show ?thesis
    proof (cases "config E")
      case None
      then show ?thesis
        by (simp add: sendMessage_def Let_def Some j Inr message_create_unique [OF u1])
    next
      case cfg: (Some cfg)
      show ?thesis
      proof (cases "truthy_string (sunshineConversationId conversation)")
        case None
        then show ?thesis
          by (simp add: sendMessage_def Let_def Some j Inr cfg message_create_unique [OF u1]
                message_upsert_unique [OF u1])
      next
        case sid: (Some sid)
        obtain p s2 where p: "post_to_sunshine E cfg sid c s1 = (p, s2)"
          by (cases "post_to_sunshine E cfg sid c s1")
        have us2: "unique_message_identities s2"
          using u2 [of cfg sid] p by simp
        show ?thesis
          by (cases p)
             (simp_all add: sendMessage_def Let_def Some j Inr cfg sid p us2
                message_create_unique [OF u1] message_upsert_unique [OF us2])
      qed
    qed
  qed
qed


lemma message_upsert_existing:
  "rows_with_identity k s = m # rest \<Longrightarrow> message_upsert (Some k) d s = (Inr m, s)"
  by (simp add: message_upsert_def find_filter rows_with_identity_def)

lemma message_upsert_new:
  "rows_with_identity k s = [] \<Longrightarrow> um_sunshineMessageId d = Some k \<Longrightarrow>
     message_upsert (Some k) d s
       = (Inr (saved_message d s), s\<lparr>messages := messages s @ [saved_message d s]\<rparr>)"
  by (simp add: message_upsert_def find_filter rows_with_identity_def message_create_def
        list_ex_iff filter_empty_conv)

lemma rows_with_identity_messages:
  "messages s' = messages s \<Longrightarrow> rows_with_identity k s' = rows_with_identity k s"
  by (simp add: rows_with_identity_def)

text \<open>
  C1: \<open>sendMessage\<close> that reaches the persistence step with the provider message
  identity \<open>k\<close> (the provider answered with \<open>k\<close> first), on a store whose provider
  message identities are unique: when a row with identity \<open>k\<close> exists, that row is
  returned as it is and the message table does not change; when none exists, the row with
  the locally known fields and identity \<open>k\<close> is appended and returned. In both cases the
  store then holds exactly one row with identity \<open>k\<close>, and provider message identities
  remain unique.
\<close>
theorem sendMessage_keyed_upsert:
  assumes unique: "unique_message_identities s"
    and vis: "getConversationById E staff cid s = Some conversation"
    and allowed: "List.member (allowedConversationTypes E staff) (conv_type conversation)"
    and bridged: "conv_type conversation = CUSTOMER" "config E = Some cfg"
    and ext: "sunshineConversationId conversation = Some sid" "sid \<noteq> []"
    and answered: "postMessage E (smoochAppId cfg) sid
                  \<lparr> author_type = ''business'', author_displayName = appName cfg,
                    post_content = c \<rparr> = Inr (k # rest)"
  shows "(\<forall>m. rows_with_identity k s = [m] \<longrightarrow>
            fst (sendMessage E staff cid c s) = Inr m
            \<and> messages (snd (sendMessage E staff cid c s)) = messages s)
       \<and> (rows_with_identity k s = [] \<longrightarrow>
            fst (sendMessage E staff cid c s)
              = Inr \<lparr> msg_id = next_id (map msg_id (messages s)), conversationId = cid,
                      content = c, sunshineMessageId = Some k, authorType = STAFF,
                      authorId = staff_id staff, msg_metadata = [], msg_createdAt = now s \<rparr>
            \<and> messages (snd (sendMessage E staff cid c s))
              = messages s
                 @ [\<lparr> msg_id = next_id (map msg_id (messages s)), conversationId = cid,
                      content = c, sunshineMessageId = Some k, authorType = STAFF,
                      authorId = staff_id staff, msg_metadata = [], msg_createdAt = now s \<rparr>])
       \<and> length (rows_with_identity k (snd (sendMessage E staff cid c s))) = 1
       \<and> unique_message_identities (snd (sendMessage E staff cid c s))"
proof -
  let ?um = "\<lparr> um_conversationId = cid, um_content = c, um_sunshineMessageId = Some k,
               um_authorType = STAFF, um_authorId = staff_id staff, um_metadata = [] \<rparr>"
  let ?s1 = "snd (joinConversation E staff cid s)"
  let ?s2 = "?s1\<lparr>posted := posted ?s1 @ [(smoochAppId cfg, sid,
                 \<lparr> author_type = ''business'', author_displayName = appName cfg,
                   post_content = c \<rparr>)]\<rparr>"
  let ?new = "\<lparr> msg_id = next_id (map msg_id (messages s)), conversationId = cid,
                      content = c, sunshineMessageId = Some k, authorType = STAFF,
                      authorId = staff_id staff, msg_metadata = [], msg_createdAt = now s \<rparr>"
  have eq: "sendMessage E staff cid c s = message_upsert (Some k) ?um ?s2"
    using bridged ext
    by (simp add: sendMessage_after_join [OF vis allowed] Let_def truthy_string_def
          post_to_sunshine_success [OF answered])
  have ms: "messages ?s2 = messages s" and nw: "now ?s2 = now s"
    by (simp_all add: joinConversation_keeps_tables)
  have rows: "rows_with_identity k ?s2 = rows_with_identity k s"
    by (rule rows_with_identity_messages [OF ms])
  have sm: "saved_message ?um ?s2 = ?new"
    by (simp add: saved_message_def joinConversation_keeps_tables)
  have a: "fst (sendMessage E staff cid c s) = Inr m
            \<and> messages (snd (sendMessage E staff cid c s)) = messages s"
    if "rows_with_identity k s = [m]" for m
    using that rows by (simp add: eq message_upsert_existing [of k ?s2 m "[]"] ms)
  have b: "fst (sendMessage E staff cid c s) = Inr ?new
            \<and> messages (snd (sendMessage E staff cid c s)) = messages s @ [?new]"
    if "rows_with_identity k s = []"
    using that rows by (simp add: eq message_upsert_new [of k ?s2 ?um] sm ms)
  have le: "length (rows_with_identity k s) \<le> 1"
    by (rule unique_rows_with_identity [OF unique])
  have one: "length (rows_with_identity k (snd (sendMessage E staff cid c s))) = 1"
  proof (cases "rows_with_identity k s")
    case Nil
    from b [OF Nil] Nil show ?thesis
      by (simp add: rows_with_identity_def)
  next
    case (Cons m ms')
    with le have single: "rows_with_identity k s = [m]" by simp
    from a [OF single] single show ?thesis
      by (simp add: rows_with_identity_def)
  qed
  show ?thesis
    using a b one sendMessage_unique [OF unique] by blast
qed

section \<open>The conversation reconciler\<close>

lemma replace_twice:
  "conv_id a = conv_id b \<Longrightarrow>
     replace_conversation a (replace_conversation b rows) = replace_conversation a rows"
  by (induction rows) (auto simp: replace_conversation_def)

lemma replace_absent:
  "conv_id c \<notin> set (map conv_id rows) \<Longrightarrow> replace_conversation c rows = rows"
  by (induction rows) (auto simp: replace_conversation_def)

lemma find_replaced:
  "r \<in> set rows \<Longrightarrow> conv_id c = conv_id r \<Longrightarrow>
     find (\<lambda>x. conv_id x = conv_id r) (replace_conversation c rows) = Some c"
  by (induction rows) (auto simp: replace_conversation_def)

lemma others_after_replace:
  "conv_id c = i \<Longrightarrow>
     list_ex (\<lambda>x. conv_id x \<noteq> i \<and> P x) (replace_conversation c rows)
       = list_ex (\<lambda>x. conv_id x \<noteq> i \<and> P x) rows"
  by (induction rows) (auto simp: replace_conversation_def)

lemma identity_conflict_after_replace:
  "conv_id c = conv_id b \<Longrightarrow>
     identity_conflict c (s\<lparr>conversations := replace_conversation b (conversations s)\<rparr>)
       = identity_conflict c s"
  unfolding identity_conflict_def
  using others_after_replace [of b "conv_id c" "\<lambda>x. sunshineConversationId x = sunshineConversationId c" "conversations s"]
  by simp

lemma identity_conflict_fields:
  "conv_id a = conv_id b \<Longrightarrow> sunshineConversationId a = sunshineConversationId b \<Longrightarrow>
     identity_conflict a s = identity_conflict b s"
  by (simp add: identity_conflict_def)

lemma conversation_write_ok:
  "\<not> identity_conflict c s \<Longrightarrow>
     conversation_write c s
       = (Inr (c\<lparr>updatedAt := now s\<rparr>),
          s\<lparr>conversations := replace_conversation (c\<lparr>updatedAt := now s\<rparr>) (conversations s)\<rparr>)"
  using identity_conflict_fields [of "c\<lparr>updatedAt := now s\<rparr>" c s]
  by (simp add: conversation_write_def Let_def)

lemma conversation_write_conflict:
  "identity_conflict c s \<Longrightarrow> conversation_write c s = (Inl UniqueConstraint, s)"
  using identity_conflict_fields [of "c\<lparr>updatedAt := now s\<rparr>" c s]
  by (simp add: conversation_write_def Let_def)

lemma filter_head_in: "filter P xs = x # rest \<Longrightarrow> x \<in> set xs \<and> P x"
  by (induction xs) (auto split: if_splits)

text \<open>The row that \<open>upsertConversation\<close> leaves for an existing row \<open>r\<close>.\<close>

lemma upsertConversation_existing:
  assumes found: "conversations_with_identity k s = r # rest"
    and ok: "\<not> identity_conflict (omitted_update d r) s"
  shows "upsertConversation k d s
           = (Inr (merged d (now s) r),
              s\<lparr>conversations := replace_conversation (merged d (now s) r) (conversations s)\<rparr>)"
proof -
  let ?r1 = "(omitted_update d r)\<lparr>updatedAt := now s\<rparr>"
  let ?s1 = "s\<lparr>conversations := replace_conversation ?r1 (conversations s)\<rparr>"
  have f: "find (\<lambda>r. sunshineConversationId r = Some k) (conversations s) = Some r"
    using found by (simp add: find_filter conversations_with_identity_def)
  have rin: "r \<in> set (conversations s)"
    using found filter_head_in unfolding conversations_with_identity_def by fast
  have id1: "conv_id ?r1 = conv_id r" by (simp add: omitted_update_def)
  have up: "conversation_upsert k (d\<lparr>u_sunshineConversationId := Some k\<rparr>) (omitted_update d) s
              = (Inr ?r1, ?s1)"
    by (simp add: conversation_upsert_def f conversation_write_ok [OF ok])
  show ?thesis
  proof (cases "fill_customerId ?r1 d \<or> fill_source ?r1 d")
    case False
    then have "?r1 = merged d (now s) r"
      by (auto simp: merged_def omitted_update_def fill_customerId_def fill_source_def)
    with False up show ?thesis
      by (simp add: upsertConversation_def)
  next
    case True
    let ?c = "fill_update ?r1 d ?r1"
    have idc: "conv_id ?c = conv_id r"
      by (simp add: fill_update_def omitted_update_def Let_def)
    have f2: "find (\<lambda>x. conv_id x = conv_id r) (replace_conversation ?r1 (conversations s))
                = Some ?r1"
      using find_replaced [OF rin, of ?r1] id1 by simp
    have "identity_conflict ?c ?s1 = identity_conflict ?c s"
      using identity_conflict_after_replace [of ?c ?r1 s] idc id1 by simp
    also have "\<dots> = identity_conflict (omitted_update d r) s"
      by (rule identity_conflict_fields) (simp_all add: fill_update_def omitted_update_def Let_def)
    finally have ok2: "\<not> identity_conflict ?c ?s1" using ok by simp
    have w: "conversation_update (conv_id r) (fill_update ?r1 d) ?s1
               = (Inr (?c\<lparr>updatedAt := now s\<rparr>),
                  ?s1\<lparr>conversations := replace_conversation (?c\<lparr>updatedAt := now s\<rparr>)
                                          (conversations ?s1)\<rparr>)"
      using conversation_write_ok [OF ok2] by (simp add: conversation_update_def f2)
    have m: "?c\<lparr>updatedAt := now s\<rparr> = merged d (now s) r"
      by (auto simp: merged_def omitted_update_def fill_update_def fill_customerId_def
            fill_source_def Let_def)
    have rr: "replace_conversation (merged d (now s) r) (conversations ?s1)
                = replace_conversation (merged d (now s) r) (conversations s)"
      using replace_twice [of "merged d (now s) r" ?r1 "conversations s"] id1
      by (simp add: merged_def)
    have "upsertConversation k d s = conversation_update (conv_id r) (fill_update ?r1 d) ?s1"
      using True up id1 by (simp add: upsertConversation_def)
    then show ?thesis
      using w m rr by simp
  qed
qed

lemma upsertConversation_conflict:
  assumes found: "conversations_with_identity k s = r # rest"
    and bad: "identity_conflict (omitted_update d r) s"
  shows "upsertConversation k d s = (Inl UniqueConstraint, s)"
proof -
  have f: "find (\<lambda>r. sunshineConversationId r = Some k) (conversations s) = Some r"
    using found by (simp add: find_filter conversations_with_identity_def)
  show ?thesis
    by (simp add: upsertConversation_def conversation_upsert_def f conversation_write_conflict [OF bad])
qed


lemma map_conv_id_replace: "map conv_id (replace_conversation c rows) = map conv_id rows"
  by (induction rows) (auto simp: replace_conversation_def)


lemma single_identity_no_conflict:
  assumes "conversations_with_identity k s = [r]"
    and "conv_id c = conv_id r" and "sunshineConversationId c = Some k"
  shows "\<not> identity_conflict c s"
proof
  assume "identity_conflict c s"
  then obtain x where x: "x \<in> set (conversations s)" "conv_id x \<noteq> conv_id c"
      "sunshineConversationId x = Some k"
    using assms(3) by (auto simp: identity_conflict_def list_ex_iff)
  then have "x \<in> set (conversations_with_identity k s)"
    by (simp add: conversations_with_identity_def)
  with assms(1) have "x = r" by simp
  with x(2) assms(2) show False by simp
qed

lemma find_append_fresh:
  "conv_id c \<notin> set (map conv_id rows) \<Longrightarrow>
     find (\<lambda>x. conv_id x = conv_id c) (rows @ [c]) = Some c"
  by (induction rows) auto

text \<open>The row that \<open>upsertConversation\<close> creates when no row carries the identity.\<close>

lemma upsertConversation_created:
  assumes none: "conversations_with_identity k s = []"
  shows "upsertConversation k d s
           = (Inr \<lparr> conv_id = next_id (map conv_id (conversations s)),
                    sunshineConversationId = Some k, conv_type = u_type d,
                    customerId = u_customerId d, source = u_source d,
                    metadata = u_metadata d, createdAt = now s, updatedAt = now s \<rparr>,
              s\<lparr>conversations := conversations s
                   @ [\<lparr> conv_id = next_id (map conv_id (conversations s)),
                        sunshineConversationId = Some k, conv_type = u_type d,
                        customerId = u_customerId d, source = u_source d,
                        metadata = u_metadata d, createdAt = now s, updatedAt = now s \<rparr>]\<rparr>)"
proof -
  let ?c = "\<lparr> conv_id = next_id (map conv_id (conversations s)),
                    sunshineConversationId = Some k, conv_type = u_type d,
                    customerId = u_customerId d, source = u_source d,
                    metadata = u_metadata d, createdAt = now s, updatedAt = now s \<rparr>"
  let ?s1 = "s\<lparr>conversations := conversations s @ [?c]\<rparr>"
  have f: "find (\<lambda>r. sunshineConversationId r = Some k) (conversations s) = None"
    using none by (simp add: find_filter conversations_with_identity_def)
  have up: "conversation_upsert k (d\<lparr>u_sunshineConversationId := Some k\<rparr>) (omitted_update d) s
              = (Inr ?c, ?s1)"
    by (simp add: conversation_upsert_def f Let_def)
  have nc: "\<not> fill_customerId ?c d" by (auto simp: fill_customerId_def)
  show ?thesis
  proof (cases "fill_source ?c d")
    case False
    with nc up show ?thesis by (simp add: upsertConversation_def)
  next
    case True
    have fresh: "conv_id ?c \<notin> set (map conv_id (conversations s))"
      using next_id_fresh [of "map conv_id (conversations s)"] by simp
    have fu: "fill_update ?c d ?c = ?c"
      using True nc by (simp add: fill_update_def Let_def)
    have f2: "find (\<lambda>x. conv_id x = next_id (map conv_id (conversations s))) (conversations s @ [?c])
                = Some ?c"
      using find_append_fresh [OF fresh] by simp
    have "conversations_with_identity k ?s1 = [?c]"
      using none by (simp add: conversations_with_identity_def)
    then have ok: "\<not> identity_conflict ?c ?s1"
      by (rule single_identity_no_conflict) simp_all
    have rp: "replace_conversation ?c (conversations s @ [?c]) = conversations s @ [?c]"
      using replace_absent [OF fresh] by (simp add: replace_conversation_def)
    have "conversation_update (conv_id ?c) (fill_update ?c d) ?s1 = (Inr ?c, ?s1)"
      using conversation_write_ok [OF ok] rp by (simp add: conversation_update_def f2 fu)
    with True up show ?thesis by (simp add: upsertConversation_def)
  qed
qed


text \<open>
  Identifiers come from the store and are positive: a conversation that
  \<open>upsertConversation\<close> creates never has the identifier 0.
\<close>

lemma next_id_positive: "0 < next_id ids"
proof -
  have "0 \<le> foldr max ids (0::int)" by (induction ids) auto
  then show ?thesis by (simp add: next_id_def)
qed

lemma upsertConversation_ids_nonzero:
  assumes "0 \<notin> set (map conv_id (conversations s))"
  shows "0 \<notin> set (map conv_id (conversations (snd (upsertConversation k d s))))"
proof (cases "conversations_with_identity k s")
  case Nil
  show ?thesis
    using assms next_id_positive [of "map conv_id (conversations s)"]
    by (simp add: upsertConversation_created [OF Nil])
next
  case (Cons r rest)
  show ?thesis
  proof (cases "identity_conflict (omitted_update d r) s")
    case True
    then show ?thesis using assms by (simp add: upsertConversation_conflict [OF Cons])
  next
    case False
    have "map conv_id (conversations (snd (upsertConversation k d s))) = map conv_id (conversations s)"
      by (simp add: upsertConversation_existing [OF Cons False] map_conv_id_replace)
    then show ?thesis using assms by simp
  qed
qed




section \<open>Reads outside the scope\<close>






section \<open>The theorems on the example store\<close>




text \<open>Filters with the value 0 on the example store.\<close>

theorem falsy_filter_stripped_witness:
  "getConversations demo_env demo_staff (demo_args\<lparr>arg_id := Defined 0\<rparr>) demo_state
    = getConversations demo_env demo_staff (demo_args\<lparr>arg_id := Absent\<rparr>) demo_state
   \<and> getConversations demo_env demo_staff (demo_args\<lparr>arg_customerId := Defined 0\<rparr>) demo_state
    = getConversations demo_env demo_staff (demo_args\<lparr>arg_customerId := Absent\<rparr>) demo_state
   \<and> getMessages demo_env demo_staff (demo_message_args\<lparr>arg_conversationId := Some 0\<rparr>) demo_state
    = getMessages demo_env demo_staff (demo_message_args\<lparr>arg_conversationId := None\<rparr>) demo_state"
proof -
  have h1: "''id'' \<notin> fst ` set (getConversationRules demo_env demo_staff)"
    by (simp add: demo_env_def)
  have h2: "''customerId'' \<notin> fst ` set (getConversationRules demo_env demo_staff)"
    by (simp add: demo_env_def)
  from falsy_filter_stripped [of demo_env demo_staff demo_args demo_state demo_message_args] h1 h2
  show ?thesis by blast
qed



text \<open>With the provider down the send fails with the provider's error and stores nothing.\<close>

theorem sendMessage_provider_failure_witness:
  "fst (sendMessage demo_env_provider_down demo_staff 7 demo_hello demo_state)
     = Inl (ProviderError ''503'')
   \<and> messages (snd (sendMessage demo_env_provider_down demo_staff 7 demo_hello demo_state))
     = messages demo_state"
proof -
  have v: "getConversationById demo_env_provider_down demo_staff 7 demo_state
             = Some demo_customer_conversation"
    by code_simp
  have a: "List.member (allowedConversationTypes demo_env_provider_down demo_staff)
             (conv_type demo_customer_conversation)"
    by code_simp
  have b: "conv_type demo_customer_conversation = CUSTOMER"
    "config demo_env_provider_down = Some demo_config"
    "sunshineConversationId demo_customer_conversation = Some ''ext-99''"
    "''ext-99'' \<noteq> []"
    by code_simp+
  have f: "postMessage demo_env_provider_down (smoochAppId demo_config) ''ext-99''
             \<lparr> author_type = ''business'', author_displayName = appName demo_config,
               post_content = demo_hello \<rparr> = Inl ''503''"
    by (simp add: demo_env_provider_down_def)
  from sendMessage_provider_failure [OF v a b f]
  show ?thesis .
qed

text \<open>
  The provider answers \<open>prov-1\<close>: on the plain store the message is created with that
  identity; on the store that already holds the webhook's echo the echo is returned and
  no row is added.
\<close>

theorem sendMessage_keyed_upsert_witness:
  "fst (sendMessage demo_env demo_staff 7 demo_hello demo_state)
     = Inr \<lparr> msg_id = 2, conversationId = 7, content = demo_hello,
             sunshineMessageId = Some ''prov-1'', authorType = STAFF, authorId = 1,
             msg_metadata = [], msg_createdAt = 10 \<rparr>
   \<and> length (rows_with_identity ''prov-1''
        (snd (sendMessage demo_env demo_staff 7 demo_hello demo_state))) = 1
   \<and> fst (sendMessage demo_env demo_staff 7 demo_hello demo_state_with_echo) = Inr demo_echo
   \<and> messages (snd (sendMessage demo_env demo_staff 7 demo_hello demo_state_with_echo))
     = messages demo_state_with_echo
   \<and> length (rows_with_identity ''prov-1''
        (snd (sendMessage demo_env demo_staff 7 demo_hello demo_state_with_echo))) = 1"
proof -
  have u: "unique_message_identities demo_state" "unique_message_identities demo_state_with_echo"
    by code_simp+
  have v: "getConversationById demo_env demo_staff 7 demo_state = Some demo_customer_conversation"
    "getConversationById demo_env demo_staff 7 demo_state_with_echo = Some demo_customer_conversation"
    by code_simp+
  have a: "List.member (allowedConversationTypes demo_env demo_staff)
             (conv_type demo_customer_conversation)"
    by code_simp
  have b: "conv_type demo_customer_conversation = CUSTOMER"
    "config demo_env = Some demo_config"
    "sunshineConversationId demo_customer_conversation = Some ''ext-99''"
    "''ext-99'' \<noteq> []"
    by code_simp+
  have f: "postMessage demo_env (smoochAppId demo_config) ''ext-99''
             \<lparr> author_type = ''business'', author_displayName = appName demo_config,
               post_content = demo_hello \<rparr> = Inr [''prov-1'']"
    by (simp add: demo_env_def)
  have r: "rows_with_identity ''prov-1'' demo_state = []"
    "rows_with_identity ''prov-1'' demo_state_with_echo = [demo_echo]"
    by code_simp+
  have e: "next_id (map msg_id (messages demo_state)) = 2" "now demo_state = 10"
    "staff_id demo_staff = 1"
    by code_simp+
  from sendMessage_keyed_upsert [OF u(1) v(1) a b f, unfolded e]
    sendMessage_keyed_upsert [OF u(2) v(2) a b f] r
  show ?thesis by blast
qed



end
